theory Spec2Isabelle
  imports Complex_Main "HOL-Library.Word"
begin

section \<open>Landmark prediction: devices, reprojection, crops, batches\<close>

text \<open>
  A shallow embedding of \<^verbatim>\<open>batch_face/fast_alignment/predictor.py\<close>.

  Conventions of the embedding.
  \<^item> Python numbers that hold coordinates are modelled as \<open>real\<close> (a box may carry
    integers or fractions); \<open>int(...)\<close> and \<open>Tensor.int()\<close> truncate towards zero
    (\<open>py_int\<close>). Rounding of floating-point operations is not modelled.
  \<^item> An image is a \<open>rows \<times> cols \<times> 3\<close> array of bytes, as OpenCV reads it.
  \<^item> The network is a function from a batch of input tensors to a batch of flat
    output vectors; OpenCV's interpolation is a parameter of the model.
  \<^item> Every exception of the source is an element of \<open>error\<close>.
\<close>

subsection \<open>Exceptions\<close>

datatype error =
    ValueError
  | RuntimeError
  | IndexError
  | TypeError
  | AssertionError
  | Cv2Error
  | NotADirectoryError "string option"

subsection \<open>The device selector\<close>

datatype device = cpu | cuda int

definition get_device :: "int \<Rightarrow> device" where
  "get_device gpu_id = (if gpu_id > - 1 then cuda gpu_id else cpu)"

subsection \<open>Reprojection\<close>

text \<open>
  A landmark tensor of shape \<open>(n, 2)\<close> is the list of its rows. The four in-place
  column updates of \<^verbatim>\<open>reproject\<close> are the four functions below.
\<close>

type_synonym landmark = "(real \<times> real) list"
type_synonym box = "real \<times> real \<times> real \<times> real"

definition imul_col0 :: "real \<Rightarrow> landmark \<Rightarrow> landmark" where
  "imul_col0 k t = map (\<lambda>(x, y). (x * k, y)) t"

definition iadd_col0 :: "real \<Rightarrow> landmark \<Rightarrow> landmark" where
  "iadd_col0 k t = map (\<lambda>(x, y). (x + k, y)) t"

definition imul_col1 :: "real \<Rightarrow> landmark \<Rightarrow> landmark" where
  "imul_col1 k t = map (\<lambda>(x, y). (x, y * k)) t"

definition iadd_col1 :: "real \<Rightarrow> landmark \<Rightarrow> landmark" where
  "iadd_col1 k t = map (\<lambda>(x, y). (x, y + k)) t"

text \<open>What \<^verbatim>\<open>reproject\<close> returns, as a function of the contents it is given.\<close>

definition reproject :: "box \<Rightarrow> landmark \<Rightarrow> landmark" where
  "reproject bbox landmark =
     (let landmark' = landmark;
          (x1, y1, x2, y2) = bbox;
          w = x2 - x1;
          h = y2 - y1;
          landmark' = imul_col0 w landmark';
          landmark' = iadd_col0 x1 landmark';
          landmark' = imul_col1 h landmark';
          landmark' = iadd_col1 y1 landmark'
      in landmark')"

text \<open>
  The same function on a store of tensor objects, to speak about aliasing: a tensor is
  named by its address (its index in the store), \<^verbatim>\<open>clone\<close> allocates the next
  address, and an in-place update overwrites the content at an address.
\<close>

type_synonym addr = nat
type_synonym store = "landmark list"

definition clone :: "addr \<Rightarrow> store \<Rightarrow> (addr \<times> store) option" where
  "clone a s = (if a < length s then Some (length s, s @ [s ! a]) else None)"

definition inplace :: "(landmark \<Rightarrow> landmark) \<Rightarrow> addr \<Rightarrow> store \<Rightarrow> store" where
  "inplace f a s = s[a := f (s ! a)]"

definition reproject_store :: "box \<Rightarrow> addr \<Rightarrow> store \<Rightarrow> (addr \<times> store) option" where
  "reproject_store bbox landmark s =
     (case clone landmark s of
        None \<Rightarrow> None
      | Some (landmark', s) \<Rightarrow>
          (let (x1, y1, x2, y2) = bbox;
               w = x2 - x1;
               h = y2 - y1;
               s = inplace (imul_col0 w) landmark' s;
               s = inplace (iadd_col0 x1) landmark' s;
               s = inplace (imul_col1 h) landmark' s;
               s = inplace (iadd_col1 y1) landmark' s
           in Some (landmark', s)))"

subsection \<open>Splitting a flat result list\<close>

text \<open>The loop of \<^verbatim>\<open>split_feeds\<close> that accumulates the slice boundaries.\<close>

fun ends_loop :: "nat list \<Rightarrow> nat \<Rightarrow> nat list \<Rightarrow> nat list" where
  "ends_loop [] sum_now ends = ends"
| "ends_loop (c # counts) sum_now ends =
     (let sum_now = sum_now + c;
          end = sum_now
      in ends_loop counts sum_now (ends @ [end]))"

text \<open>Python's \<^verbatim>\<open>xs[a:b]\<close> for indices that are not negative.\<close>

definition py_slice :: "'a list \<Rightarrow> nat \<Rightarrow> nat \<Rightarrow> 'a list" where
  "py_slice xs a b = take (b - a) (drop a xs)"

definition split_feeds :: "'a list \<Rightarrow> 'b list list \<Rightarrow> 'a list list" where
  "split_feeds all_feeds all_faces =
     (let counts = map length all_faces;
          ends = ends_loop counts 0 [0]
      in map (\<lambda>i. py_slice all_feeds (ends ! (i - 1)) (ends ! i)) [1 ..< length ends])"

subsection \<open>Arrays of pixels and the OpenCV operations used\<close>







subsection \<open>The face-crop preprocessor\<close>

text \<open>Python's \<^verbatim>\<open>int(x)\<close> and torch's \<^verbatim>\<open>.int()\<close>: truncation towards zero.\<close>

definition py_int :: "real \<Rightarrow> int" where
  "py_int r = (if r < 0 then \<lceil>r\<rceil> else \<lfloor>r\<rfloor>)"

type_synonym bbox = "int \<times> int \<times> int \<times> int"

text \<open>
  A float tensor in channel-first layout: its shape and its entries. A feed is the
  dictionary with the keys \<^verbatim>\<open>data\<close> and \<^verbatim>\<open>bbox\<close>.
\<close>

record tensor =
  dims :: "nat \<times> nat \<times> nat"
  val :: "nat \<Rightarrow> nat \<Rightarrow> nat \<Rightarrow> real"

record feed =
  feed_data :: tensor
  feed_bbox :: bbox










subsection \<open>Batched inference\<close>

text \<open>
  The network: a batch of input tensors to a batch of output vectors, each the flat
  content of one output row.
\<close>

type_synonym net = "tensor list \<Rightarrow> real list list"

text \<open>
  \<^verbatim>\<open>landmark.reshape(-1, 2)\<close>: the values in pairs; torch refuses an odd number of
  values, and an empty tensor (the size of the free dimension is ambiguous).
\<close>

fun pairs :: "real list \<Rightarrow> landmark option" where
  "pairs [] = Some []"
| "pairs [x] = None"
| "pairs (x # y # r) = map_option ((#) (x, y)) (pairs r)"

definition reshape2 :: "real list \<Rightarrow> error + landmark" where
  "reshape2 v =
     (if v = [] then Inl RuntimeError
      else case pairs v of None \<Rightarrow> Inl RuntimeError | Some l \<Rightarrow> Inr l)"

text \<open>
  \<^verbatim>\<open>DataLoader(dataset, batch_size=n, shuffle=False)\<close>, from torch's documentation:
  a batch size that is not positive is refused (\<^verbatim>\<open>ValueError\<close>); iteration yields
  the dataset in order, in batches of \<open>n\<close> (the last one may be shorter), each batch
  collated: the tensors under every key stacked, which fails (\<^verbatim>\<open>RuntimeError\<close>) when
  their shapes differ.
\<close>

function chunks :: "nat \<Rightarrow> 'a list \<Rightarrow> 'a list list" where
  "chunks n xs = (if n = 0 \<or> xs = [] then [] else take n xs # chunks n (drop n xs))"
  by pat_completeness auto
termination
  by (relation "measure (\<lambda>(n, xs). length xs)") auto

definition DataLoader :: "feed list \<Rightarrow> int \<Rightarrow> error + feed list list" where
  "DataLoader dataset batch_size =
     (if batch_size \<le> 0 then Inl ValueError else Inr (chunks (nat batch_size) dataset))"

definition collate :: "feed list \<Rightarrow> error + tensor list \<times> bbox list" where
  "collate batch =
     (if list_all (\<lambda>f. dims (feed_data f) = dims (feed_data (hd batch))) batch
      then Inr (map feed_data batch, map feed_bbox batch)
      else Inl RuntimeError)"

definition real_box :: "bbox \<Rightarrow> box" where
  "real_box b = (case b of (x1, y1, x2, y2) \<Rightarrow> (real_of_int x1, real_of_int y1, real_of_int x2, real_of_int y2))"

text \<open>The inner loop of \<^verbatim>\<open>batch_predict2\<close> over \<^verbatim>\<open>zip(landmarks, feed["bbox"])\<close>.\<close>

fun reproject_rows :: "(real list \<times> bbox) list \<Rightarrow> landmark list \<Rightarrow> error + landmark list" where
  "reproject_rows [] results = Inr results"
| "reproject_rows ((landmark, bbox) # rest) results =
     (case reshape2 landmark of
        Inl e \<Rightarrow> Inl e
      | Inr landmark \<Rightarrow> reproject_rows rest (results @ [reproject (real_box bbox) landmark]))"

text \<open>The outer loop over the batches of the loader.\<close>

fun predict_batches :: "net \<Rightarrow> device \<Rightarrow> feed list list \<Rightarrow> landmark list \<Rightarrow> error + landmark list" where
  "predict_batches model device [] results = Inr results"
| "predict_batches model device (batch # loader) results =
     (case collate batch of
        Inl e \<Rightarrow> Inl e
      | Inr (data, bboxes) \<Rightarrow>
          (let landmarks = model data
           in case reproject_rows (zip landmarks bboxes) results of
                Inl e \<Rightarrow> Inl e
              | Inr results \<Rightarrow> predict_batches model device loader results))"

text \<open>The argument \<^verbatim>\<open>feeds\<close>: one feed or a list of feeds (\<^verbatim>\<open>isinstance(feeds, list)\<close>).\<close>

datatype feeds_arg = OneFeed feed | FeedList "feed list"

definition batch_predict2 :: "net \<Rightarrow> feeds_arg \<Rightarrow> device \<Rightarrow> int option \<Rightarrow> error + landmark list" where
  "batch_predict2 model feeds device batch_size =
     (let feeds = (case feeds of OneFeed f \<Rightarrow> [f] | FeedList fs \<Rightarrow> fs);
          batch_size = (case batch_size of None \<Rightarrow> int (length feeds) | Some b \<Rightarrow> b)
      in case DataLoader feeds (int (length feeds)) of
           Inl e \<Rightarrow> Inl e
         | Inr loader \<Rightarrow> predict_batches model device loader [])"

subsection \<open>The predictor\<close>

record predictor =
  self_device :: device
  self_backbone :: string
  self_model :: net

text \<open>
  \<^verbatim>\<open>LandmarkPredictor.__init__(gpu_id=0, backbone="MobileNet", file=None)\<close>. An argument
  the caller leaves out is \<open>None\<close> here and takes the default of the signature. The
  networks and \<^verbatim>\<open>load_weights\<close> are not part of this file: \<open>load_net file backbone\<close>
  stands for the network of that backbone with the weights of \<open>file\<close> loaded.
\<close>

definition LandmarkPredictor_init ::
  "(string option \<Rightarrow> string \<Rightarrow> net) \<Rightarrow> int option \<Rightarrow> string option \<Rightarrow> string option
     \<Rightarrow> error + predictor" where
  "LandmarkPredictor_init load_net gpu_id backbone file =
     (let gpu_id = (case gpu_id of None \<Rightarrow> 0 | Some g \<Rightarrow> g);
          backbone = (case backbone of None \<Rightarrow> ''MobileNet'' | Some b \<Rightarrow> b);
          device = get_device gpu_id
      in if backbone = ''MobileNet''
         then Inr \<lparr>self_device = device, self_backbone = backbone,
                   self_model = load_net file backbone\<rparr>
         else if backbone = ''PFLD''
         then Inr \<lparr>self_device = device, self_backbone = backbone,
                   self_model = load_net file backbone\<rparr>
         else Inl (NotADirectoryError (Some backbone)))"












subsection \<open>Auxiliary functions of the proofs\<close>

text \<open>
  The functions of this subsection are not part of the program: the proofs below use
  them to describe what its iterations compute.
\<close>

text \<open>The running sums that \<open>ends_loop\<close> appends, and the slices between them.\<close>

fun bounds :: "nat \<Rightarrow> nat list \<Rightarrow> nat list" where
  "bounds s [] = []"
| "bounds s (c # cs) = (s + c) # bounds (s + c) cs"

fun pieces :: "'a list \<Rightarrow> nat \<Rightarrow> nat list \<Rightarrow> 'a list list" where
  "pieces xs s [] = []"
| "pieces xs s (c # cs) = py_slice xs s (s + c) # pieces xs (s + c) cs"




subsection \<open>Example data\<close>



definition stub_loader :: "string option \<Rightarrow> string \<Rightarrow> net" where
  "stub_loader file backbone batch = []"


section \<open>Properties\<close>

subsection \<open>Reprojection\<close>

lemma col_updates:
  "iadd_col1 d (imul_col1 c (iadd_col0 b (imul_col0 a t))) = map (\<lambda>(x, y). (x * a + b, y * c + d)) t"
  by (simp add: iadd_col1_def imul_col1_def iadd_col0_def imul_col0_def case_prod_beta)

lemma reproject_eq:
  "reproject (x1, y1, x2, y2) t = map (\<lambda>(lx, ly). (lx * (x2 - x1) + x1, ly * (y2 - y1) + y1)) t"
  by (simp add: reproject_def col_updates)

text \<open>
  Claim C1. For every bounding box \<open>(x1, y1, x2, y2)\<close> and every landmark set,
  \<^verbatim>\<open>reproject\<close> maps each pair \<open>(lx, ly)\<close> to
  \<open>(lx * (x2 - x1) + x1, ly * (y2 - y1) + y1)\<close>; the pair \<open>(0, 0)\<close> goes to
  \<open>(x1, y1)\<close> and the pair \<open>(1, 1)\<close> to \<open>(x2, y2)\<close>.
\<close>

theorem reproject_formula:
  "reproject (x1, y1, x2, y2) landmark =
     map (\<lambda>(lx, ly). (lx * (x2 - x1) + x1, ly * (y2 - y1) + y1)) landmark
   \<and> reproject (x1, y1, x2, y2) [(0, 0), (1, 1)] = [(x1, y1), (x2, y2)]"
  by (simp add: reproject_eq)

lemma inplace_last: "inplace f (length s) (s @ [t]) = s @ [f t]"
  by (simp add: inplace_def)

lemma reproject_store_eq:
  "a < length s \<Longrightarrow> reproject_store bbox a s = Some (length s, s @ [reproject bbox (s ! a)])"
  by (cases bbox) (simp add: reproject_store_def clone_def inplace_last reproject_def)

text \<open>
  Claim C7. \<^verbatim>\<open>reproject\<close> does not change the tensor it is given: on a store \<open>s\<close>
  that holds the landmark tensor at address \<open>landmark\<close>, it returns the address
  \<open>length s\<close>, which no object of \<open>s\<close> has (a fresh allocation), the objects of
  \<open>s\<close> are all as they were, the caller's tensor among them, and the new object
  holds the reprojected values.
\<close>

theorem reproject_store_pure:
  assumes "landmark < length s"
  shows "\<exists>s'. reproject_store bbox landmark s = Some (length s, s')
           \<and> length s' = Suc (length s)
           \<and> take (length s) s' = s
           \<and> s' ! landmark = s ! landmark
           \<and> s' ! length s = reproject bbox (s ! landmark)"
  using assms by (simp add: reproject_store_eq nth_append)

text \<open>
  Claim C7, witness: a store with one tensor holding \<open>(0, 0)\<close> and \<open>(1, 1)\<close>.
\<close>

theorem reproject_store_pure_witness:
  "\<exists>s'. reproject_store (1, 2, 11, 22) 0 [[(0, 0), (1, 1)]] = Some (1, s')
           \<and> length s' = 2
           \<and> take 1 s' = [[(0, 0), (1, 1)]]
           \<and> s' ! 0 = [(0, 0), (1, 1)]
           \<and> s' ! 1 = [(1, 2), (11, 22)]"
  using reproject_store_pure [of 0 "[[(0, 0), (1, 1)]]" "(1, 2, 11, 22)"]
  by (simp add: reproject_eq numeral_2_eq_2)

subsection \<open>The device selector\<close>

text \<open>
  Claim C9, amended. \<^verbatim>\<open>get_device\<close> maps every negative index to the CPU and every
  index \<open>i\<close> that is not negative to the accelerator \<open>cuda i\<close>. A predictor
  constructed without an accelerator index takes the default \<^verbatim>\<open>gpu_id=0\<close> of the
  signature: whenever the construction succeeds, its device is \<open>cuda 0\<close>.
\<close>

theorem get_device_cases:
  "get_device i = (if i < 0 then cpu else cuda i)
   \<and> (\<forall>p. LandmarkPredictor_init load_net None backbone file = Inr p \<longrightarrow> self_device p = cuda 0)"
  by (auto simp: get_device_def LandmarkPredictor_init_def Let_def split: if_splits)

text \<open>
  Claim C9, witness: the indices -1, 0 and 3, and the construction with every
  argument left out.
\<close>

theorem get_device_cases_witness:
  "get_device (- 1) = cpu \<and> get_device 0 = cuda 0 \<and> get_device 3 = cuda 3
   \<and> (\<exists>p. LandmarkPredictor_init stub_loader None None None = Inr p
          \<and> self_device p = cuda 0)"
  using get_device_cases [of "- 1" stub_loader None None]
    get_device_cases [of 0 stub_loader None None]
    get_device_cases [of 3 stub_loader None None]
  by (simp add: LandmarkPredictor_init_def Let_def)

text \<open>
  Claim C9, counterexample to "constructing a predictor without an accelerator index
  selects the CPU": with no argument given the construction succeeds, with the
  backbone MobileNet and the device \<open>cuda 0\<close>.
\<close>

theorem default_device_not_cpu:
  "LandmarkPredictor_init stub_loader None None None =
     Inr \<lparr>self_device = cuda 0, self_backbone = ''MobileNet'',
          self_model = stub_loader None ''MobileNet''\<rparr>
   \<and> cuda 0 \<noteq> cpu"
  by (simp add: LandmarkPredictor_init_def get_device_def Let_def)

subsection \<open>Splitting a flat result list\<close>

lemma ends_loop_bounds: "ends_loop counts s ends = ends @ bounds s counts"
  by (induction counts arbitrary: s ends) (simp_all add: Let_def)

lemma length_bounds: "length (bounds s cs) = length cs"
  by (induction cs arbitrary: s) simp_all

lemma map_slices_pieces:
  "map (\<lambda>j. py_slice xs ((s # bounds s cs) ! j) ((s # bounds s cs) ! Suc j)) [0 ..< length cs]
     = pieces xs s cs"
proof (induction cs arbitrary: s)
  case Nil
  then show ?case by simp
next
  case (Cons c cs)
  have "[0 ..< length (c # cs)] = 0 # map Suc [0 ..< length cs]"
    by (simp add: upt_conv_Cons map_Suc_upt del: upt_Suc)
  then show ?case
    using Cons.IH [of "s + c"] by (simp add: comp_def del: upt_Suc)
qed

lemma shift_range:
  "map (\<lambda>i. g (i - Suc 0) i) [Suc 0 ..< Suc n] = map (\<lambda>j. g j (Suc j)) [0 ..< n]"
proof -
  have "[Suc 0 ..< Suc n] = map Suc [0 ..< n]"
    by (simp add: map_Suc_upt del: upt_Suc)
  then show ?thesis by (simp add: comp_def del: upt_Suc)
qed

lemma split_feeds_pieces: "split_feeds xs faces = pieces xs 0 (map length faces)"
proof -
  define E where "E = 0 # bounds 0 (map length faces)"
  have "split_feeds xs faces
      = map (\<lambda>i. py_slice xs (E ! (i - Suc 0)) (E ! i)) [Suc 0 ..< Suc (length faces)]"
    by (simp add: split_feeds_def Let_def ends_loop_bounds length_bounds E_def del: upt_Suc)
  also have "\<dots> = map (\<lambda>j. py_slice xs (E ! j) (E ! Suc j)) [0 ..< length faces]"
    by (rule shift_range [of "\<lambda>a b. py_slice xs (E ! a) (E ! b)"])
  also have "\<dots> = pieces xs 0 (map length faces)"
    using map_slices_pieces [of xs 0 "map length faces"] by (simp add: E_def)
  finally show ?thesis .
qed

lemma pieces_lengths:
  "s + sum_list cs \<le> length xs \<Longrightarrow> map length (pieces xs s cs) = cs"
  by (induction cs arbitrary: s) (simp_all add: py_slice_def)

lemma pieces_concat:
  "concat (pieces xs s cs) = take (sum_list cs) (drop s xs)"
proof (induction cs arbitrary: s)
  case Nil
  then show ?case by simp
next
  case (Cons c cs)
  have "take c (drop s xs) @ take (sum_list cs) (drop (s + c) xs) = take (c + sum_list cs) (drop s xs)"
    by (simp add: take_add add.commute)
  then show ?case using Cons.IH [of "s + c"] by (simp add: py_slice_def)
qed

text \<open>
  Claim C4. When the flat list has as many elements as the per-image box lists have
  boxes in total, \<^verbatim>\<open>split_feeds\<close> returns one group per image, the lengths of the
  groups are the per-image box counts in the original order, and the groups
  concatenated are the flat list.
\<close>

theorem split_feeds_partition:
  assumes "length all_feeds = sum_list (map length all_faces)"
  shows "map length (split_feeds all_feeds all_faces) = map length all_faces
         \<and> concat (split_feeds all_feeds all_faces) = all_feeds"
  using assms by (simp add: split_feeds_pieces pieces_lengths pieces_concat)

text \<open>
  Claim C4, witness: the counts 2, 0 and 3 on a list of five elements.
\<close>

theorem split_feeds_partition_witness:
  "length ''abcde'' = sum_list (map length [[1, 2], [], [3, 4, 5 :: nat]])
   \<and> split_feeds ''abcde'' [[1, 2], [], [3, 4, 5 :: nat]] = [''ab'', [], ''cde'']
   \<and> map length (split_feeds ''abcde'' [[1, 2], [], [3, 4, 5 :: nat]]) = [2, 0, 3]
   \<and> concat (split_feeds ''abcde'' [[1, 2], [], [3, 4, 5 :: nat]]) = ''abcde''"
  using split_feeds_partition [of "''abcde''" "[[1, 2], [], [3, 4, 5 :: nat]]"]
  by (simp add: split_feeds_pieces py_slice_def)

subsection \<open>Batched inference\<close>




lemma chunks_whole: "xs \<noteq> [] \<Longrightarrow> chunks (length xs) xs = [xs]"
  by (subst chunks.simps) (simp add: chunks.simps [of _ "[]"])

lemma DataLoader_whole:
  "DataLoader feeds (int (length feeds)) = (if feeds = [] then Inl ValueError else Inr [feeds])"
  by (simp add: DataLoader_def chunks_whole)



text \<open>
  Claim C10. The argument \<^verbatim>\<open>batch_size\<close> of \<^verbatim>\<open>batch_predict2\<close> has no effect: for
  every network, feeds and device, any two values of it (\<open>None\<close> or an integer) give
  the same result, because the loader is built with the number of feeds as its batch
  size: whatever \<^verbatim>\<open>batch_size\<close> is, the loader yields the feeds as one batch (and is
  refused with \<open>ValueError\<close> when there is no feed).
\<close>

theorem batch_size_ignored:
  "batch_predict2 model feeds device batch_size = batch_predict2 model feeds device batch_size'
   \<and> batch_predict2 model (FeedList fs) device batch_size =
        (if fs = [] then Inl ValueError else predict_batches model device [fs] [])
   \<and> batch_predict2 model (OneFeed f) device batch_size = predict_batches model device [[f]] []"
  by (simp add: batch_predict2_def Let_def DataLoader_whole)

subsection \<open>The face-crop preprocessor\<close>















lemma py_int_of_int: "py_int (of_int k) = k"
  by (simp add: py_int_def)





























subsection \<open>One image with several boxes, and with one box\<close>









end
